theory Spec2Isabelle
  imports Complex_Main
begin

section \<open>The snapshot-metadata Lambda (functions/snapshotMetadata/snapshotMetadata.ts)\<close>

subsection \<open>JavaScript built-ins used by the handler\<close>

text \<open>
  \<open>String.prototype.split\<close> with a one-character separator: the pieces between the
  separators, in order; a string without the separator (the empty string too) gives a
  one-element array.
\<close>

fun split_str :: "char \<Rightarrow> string \<Rightarrow> string list" where
  "split_str c [] = [[]]"
| "split_str c (x # xs) =
     (if x = c then [] # split_str c xs
      else (case split_str c xs of
              [] \<Rightarrow> [[x]]
            | y # ys \<Rightarrow> (x # y) # ys))"

text \<open>\<open>Array.prototype.join\<close>.\<close>

fun join_str :: "string \<Rightarrow> string list \<Rightarrow> string" where
  "join_str sep [] = []"
| "join_str sep [x] = x"
| "join_str sep (x # y # ys) = x @ sep @ join_str sep (y # ys)"

text \<open>\<open>String.prototype.padStart\<close> with a one-character filler.\<close>

definition padStart :: "nat \<Rightarrow> char \<Rightarrow> string \<Rightarrow> string" where
  "padStart n c s = replicate (n - length s) c @ s"

text \<open>
  \<open>xs[i]\<close> for an integral \<open>i\<close>: an index outside the array (negative ones too) reads
  \<open>undefined\<close>, here \<open>None\<close>.
\<close>

definition index :: "'a list \<Rightarrow> int \<Rightarrow> 'a option" where
  "index xs i = (if 0 \<le> i \<and> i < int (length xs) then Some (xs ! nat i) else None)"

text \<open>\<open>xs.slice(-1)\<close>: the last element as an array, or the empty array.\<close>

definition slice_last :: "'a list \<Rightarrow> 'a list" where
  "slice_last xs = drop (length xs - 1) xs"

text \<open>\<open>Number.prototype.toString\<close> on an integral number, in decimal.\<close>

definition digit_char :: "nat \<Rightarrow> char" where
  "digit_char d = ''0123456789'' ! d"

fun digits :: "nat \<Rightarrow> string" where
  "digits n = (if n < 10 then [digit_char n] else digits (n div 10) @ [digit_char (n mod 10)])"

declare digits.simps [simp del]

definition toString :: "int \<Rightarrow> string" where
  "toString i = (if i < 0 then CHR ''-'' # digits (nat (- i)) else digits (nat i))"

text \<open>
  \<open>new Date(seconds * 1000 + nanos / 1000000)\<close>. The two fields are taken as integers
  (the event carries whole seconds and nanoseconds) and the arithmetic as exact: the
  rounding of doubles is not modelled. The Date constructor truncates the number towards
  zero and yields an invalid date when its magnitude exceeds 8.64e15 milliseconds; an
  invalid date is \<open>None\<close>.
\<close>

definition new_Date :: "int \<Rightarrow> int \<Rightarrow> int option" where
  "new_Date secs nns =
     (let t = secs * 1000000000 + nns;
          ms = (if 0 \<le> t then t div 1000000 else - ((- t) div 1000000))
      in if \<bar>ms\<bar> \<le> 8640000000000000 then Some ms else None)"

text \<open>
  The UTC calendar date of a time value: the day number is \<open>floor(t / msPerDay)\<close>, and
  the proleptic Gregorian year, month (1 to 12) and day of the month are computed from
  the day number by the usual era arithmetic (400-year cycles of 146097 days, the year
  starting in March).
\<close>

definition civil_from_days :: "int \<Rightarrow> int \<times> int \<times> int" where
  "civil_from_days z0 =
     (let z = z0 + 719468;
          era = z div 146097;
          doe = z - era * 146097;
          yoe = (doe - doe div 1460 + doe div 36524 - doe div 146096) div 365;
          y = yoe + era * 400;
          doy = doe - (365 * yoe + yoe div 4 - yoe div 100);
          mp = (5 * doy + 2) div 153;
          d = doy - (153 * mp + 2) div 5 + 1;
          m = (if mp < 10 then mp + 3 else mp - 9)
      in (if m \<le> 2 then y + 1 else y, m, d))"

definition getUTCFullYear :: "int \<Rightarrow> int" where
  "getUTCFullYear t = fst (civil_from_days (t div 86400000))"

text \<open>The month as the handler uses it, \<open>getUTCMonth() + 1\<close>.\<close>

definition getUTCMonth_plus1 :: "int \<Rightarrow> int" where
  "getUTCMonth_plus1 t = fst (snd (civil_from_days (t div 86400000)))"

definition getUTCDate :: "int \<Rightarrow> int" where
  "getUTCDate t = snd (snd (civil_from_days (t div 86400000)))"

text \<open>
  \<open>Date.prototype.toISOString\<close>: \<open>YYYY-MM-DDTHH:mm:ss.sssZ\<close>, the year with a sign
  and six digits outside 0 to 9999.
\<close>

definition toISOString :: "int \<Rightarrow> string" where
  "toISOString t =
     (let y = getUTCFullYear t;
          r = t mod 86400000;
          ys = (if 0 \<le> y \<and> y \<le> 9999 then padStart 4 (CHR ''0'') (toString y)
                else (if y < 0 then CHR ''-'' else CHR ''+'') # padStart 6 (CHR ''0'') (toString \<bar>y\<bar>))
      in ys @ ''-'' @ padStart 2 (CHR ''0'') (toString (getUTCMonth_plus1 t))
            @ ''-'' @ padStart 2 (CHR ''0'') (toString (getUTCDate t))
            @ ''T'' @ padStart 2 (CHR ''0'') (toString (r div 3600000))
            @ '':'' @ padStart 2 (CHR ''0'') (toString (r mod 3600000 div 60000))
            @ '':'' @ padStart 2 (CHR ''0'') (toString (r mod 60000 div 1000))
            @ ''.'' @ padStart 3 (CHR ''0'') (toString (r mod 1000)) @ ''Z'')"

subsection \<open>The event, the result and the world the handler talks to\<close>

record creationDate_t =
  seconds :: int
  nanos :: int

text \<open>
  \<open>event.detail.serviceEventDetails\<close>. The resource type is a string at run time (the
  switch has a default branch for anything outside the four names).
\<close>

record BackupEvent =
  backupJobId :: string
  backupVaultName :: string
  resourceType :: string
  resourceArn :: string
  recoveryPointArn :: string
  state :: string
  creationDate :: creationDate_t

type_synonym tag = "string \<times> string"

record SnapshotMetadata =
  AvailabilityZone :: "string option"
  SnapshotArn :: string
  SnapshotId :: "string option"
  BackupVaultName :: string
  ResourceArn :: string
  ResourceType :: string
  S3BucketName :: string
  S3Prefix :: string
  CreationDate :: string
  Tags :: "tag list"
  Engine :: string

text \<open>
  What the handler can fail with: a failed \<open>assert\<close>, a thrown \<open>Error\<close> with its
  message, the rejection of an awaited service call, and the \<open>RangeError\<close> of
  \<open>toISOString\<close> on an invalid date.
\<close>

datatype error =
    AssertionError
  | Error string
  | ServiceError string
  | RangeError

text \<open>The calls the handler sends out, in the order it sends them.\<close>

datatype call =
    S3_listBuckets
  | EC2_describeTags "string option"
  | RDS_describeDBClusterSnapshots string
  | RDS_describeDBSnapshots string
  | RDS_listTagsForResource string
  | DDB_listTagsOfResource string

text \<open>
  Everything outside the handler: the two environment variables, the ARN validator of
  the \<open>@aws-sdk/util-arn-parser\<close> library (a parameter here), the value
  \<open>Math.random()\<close> returns, and the answers of the services. The two describe calls of
  RDS answer with the engine of the first snapshot of the reply.
\<close>

record world =
  VALIDAZS :: string
  BUCKET :: string
  ARN_validate :: "string \<Rightarrow> bool"
  random :: real
  listBuckets :: "error + string list"
  describeTags :: "string option \<Rightarrow> error + tag list"
  describeDBClusterSnapshots :: "string \<Rightarrow> error + string"
  describeDBSnapshots :: "string \<Rightarrow> error + string"
  listTagsForResource :: "string \<Rightarrow> error + tag list"
  listTagsOfResource :: "string \<Rightarrow> error + tag list"

subsection \<open>The handler\<close>

text \<open>The vault-name test \<open>/^[a-zA-Z0-9\-\_]{2,50}$/\<close>.\<close>

definition vault_char :: "char \<Rightarrow> bool" where
  "vault_char c \<longleftrightarrow>
     c \<in> set ''abcdefghijklmnopqrstuvwxyzABCDEFGHIJKLMNOPQRSTUVWXYZ0123456789-_''"

definition vault_name_ok :: "string \<Rightarrow> bool" where
  "vault_name_ok s \<longleftrightarrow> 2 \<le> length s \<and> length s \<le> 50 \<and> list_all vault_char s"

text \<open>\<open>checkBucketOwner\<close>: is the bucket among the buckets the account lists?\<close>

definition checkBucketOwner :: "world \<Rightarrow> string \<Rightarrow> error + bool" where
  "checkBucketOwner w bucket =
     (case listBuckets w of
        Inl e \<Rightarrow> Inl e
      | Inr buckets \<Rightarrow> Inr (list_ex (\<lambda>b. b = bucket) buckets))"

text \<open>
  The local variables \<open>tags\<close> and \<open>engine\<close> of the handler, and the \<open>switch\<close> on the
  resource type that assigns them. The EBS and DynamoDB branches await their call, so a
  rejection fails the handler and the result is assigned before the switch is left. The
  Aurora and RDS branches start both calls and register a callback on
  \<open>Promise.all(...)\<close> with \<open>then\<close>, without awaiting it: the switch is left at once,
  the variables keep their values, and the callback (the third component, empty when
  one of the two calls is rejected) can only run after the handler has built its result.
\<close>

record locals =
  tags :: "tag list"
  engine :: string

definition resource_switch ::
  "world \<Rightarrow> BackupEvent \<Rightarrow> locals \<Rightarrow> call list \<times> (error + locals) \<times> (locals \<Rightarrow> locals) list" where
  "resource_switch w d l =
     (if resourceType d = ''EBS'' then
        (let rid = index (split_str CHR ''/'' (resourceArn d)) 1 in
         ([EC2_describeTags rid],
          (case describeTags w rid of
             Inl e \<Rightarrow> Inl e
           | Inr ts \<Rightarrow> Inr (l\<lparr>tags := ts\<rparr>)),
          []))
      else if resourceType d = ''Aurora'' then
        ([RDS_describeDBClusterSnapshots (resourceArn d), RDS_listTagsForResource (resourceArn d)],
         Inr l,
         (case (describeDBClusterSnapshots w (resourceArn d), listTagsForResource w (resourceArn d)) of
            (Inr e, Inr ts) \<Rightarrow> [\<lambda>l'. l'\<lparr>engine := e, tags := ts\<rparr>]
          | _ \<Rightarrow> []))
      else if resourceType d = ''RDS'' then
        ([RDS_describeDBSnapshots (resourceArn d), RDS_listTagsForResource (resourceArn d)],
         Inr l,
         (case (describeDBSnapshots w (resourceArn d), listTagsForResource w (resourceArn d)) of
            (Inr e, Inr ts) \<Rightarrow> [\<lambda>l'. l'\<lparr>engine := e, tags := ts\<rparr>]
          | _ \<Rightarrow> []))
      else if resourceType d = ''DynamoDB'' then
        ([DDB_listTagsOfResource (resourceArn d)],
         (case listTagsOfResource w (resourceArn d) of
            Inl e \<Rightarrow> Inl e
          | Inr ts \<Rightarrow> Inr (l\<lparr>tags := ts\<rparr>)),
         [])
      else ([], Inl (Error (''Invalid resourceType: '' @ resourceType d)), []))"

text \<open>The \<open>S3Prefix\<close> expression of the returned object, for a valid date \<open>t\<close>.\<close>

definition S3Prefix_of :: "BackupEvent \<Rightarrow> int \<Rightarrow> string" where
  "S3Prefix_of d t =
     join_str ''/''
       (split_str CHR '':'' (resourceArn d) @
        [''Y='' @ padStart 4 (CHR ''0'') (toString (getUTCFullYear t)),
         ''M='' @ padStart 2 (CHR ''0'') (toString (getUTCMonth_plus1 t)),
         ''D='' @ padStart 2 (CHR ''0'') (toString (getUTCDate t)),
         backupJobId d])"

text \<open>
  \<open>metadataHandler\<close>: the calls sent, and the error thrown or the object returned. The
  object is built from \<open>tags\<close> and \<open>engine\<close> as the switch left them. On an invalid
  date the year, month and day read \<open>NaN\<close> and \<open>toISOString\<close> throws while the object
  is built.
\<close>

definition metadataHandler :: "world \<Rightarrow> BackupEvent \<Rightarrow> call list \<times> (error + SnapshotMetadata)" where
  "metadataHandler w d =
     (if state d = ''COMPLETED'' then
        (let azlist = split_str CHR '','' (VALIDAZS w);
             l = \<lparr>tags = [], engine = ''''\<rparr>
         in
         if \<not> vault_name_ok (backupVaultName d) then ([], Inl AssertionError)
         else if \<not> ARN_validate w (resourceArn d) then ([], Inl AssertionError)
         else if \<not> ARN_validate w (recoveryPointArn d) then ([], Inl AssertionError)
         else
           (case checkBucketOwner w (BUCKET w) of
              Inl e \<Rightarrow> ([S3_listBuckets], Inl e)
            | Inr False \<Rightarrow>
                ([S3_listBuckets],
                 Inl (Error (''Backup bucket '' @ BUCKET w @ '' is not owned by this account.'')))
            | Inr True \<Rightarrow>
                (let creationDate = new_Date (seconds (creationDate d)) (nanos (creationDate d))
                 in
                 (case resource_switch w d l of
                    (calls, Inl e, pending) \<Rightarrow> (S3_listBuckets # calls, Inl e)
                  | (calls, Inr l', pending) \<Rightarrow>
                      (case creationDate of
                         None \<Rightarrow> (S3_listBuckets # calls, Inl RangeError)
                       | Some t \<Rightarrow>
                           (S3_listBuckets # calls,
                            Inr \<lparr>AvailabilityZone =
                                   index azlist \<lfloor>random w * real (length azlist)\<rfloor>,
                                 SnapshotArn = recoveryPointArn d,
                                 SnapshotId =
                                   index (slice_last (split_str CHR ''/'' (recoveryPointArn d))) 0,
                                 BackupVaultName = backupVaultName d,
                                 ResourceArn = resourceArn d,
                                 ResourceType = resourceType d,
                                 S3BucketName = BUCKET w,
                                 S3Prefix = S3Prefix_of d t,
                                 CreationDate = toISOString t,
                                 Tags = tags l',
                                 Engine = engine l'\<rparr>))))))
      else
        ([], Inl (Error (''Backup job '' @ backupJobId d @ '' terminated in state '' @ state d))))"


section \<open>The Step Functions state machines\<close>

subsection \<open>The workflow engine\<close>

text \<open>
  The state machines are built as graphs of states (tasks, choices, waits, succeed and
  fail states) and run by the Step Functions service. The graphs below are written as
  the constructs build them; this subsection is the engine that runs a graph, after the
  Amazon States Language.

  The state document is a JSON object, kept as the list of its leaves: a JSONPath such
  as \<open>$.Ready.State\<close> and the string stored there.
\<close>

type_synonym doc = "(string \<times> string) list"

definition under :: "string \<Rightarrow> string \<Rightarrow> bool" where
  "under p k \<longleftrightarrow>
     k = p \<or> take (Suc (length p)) k = p @ ''.'' \<or> take (Suc (length p)) k = p @ ''[''"

definition present :: "doc \<Rightarrow> string \<Rightarrow> bool" where
  "present d p = list_ex (\<lambda>(k, v). under p k) d"

text \<open>Writing the object \<open>sub\<close> at the path \<open>p\<close> replaces what was there.\<close>

definition put :: "string \<Rightarrow> doc \<Rightarrow> doc \<Rightarrow> doc" where
  "put p sub d =
     (if p = ''$'' then sub
      else map (\<lambda>(k, v). (p @ drop 1 k, v)) sub @ filter (\<lambda>(k, v). \<not> under p k) d)"

text \<open>
  A result selector \<open>{"Name.$": path, ...}\<close> builds the object with the fields
  \<open>Name\<close> from the raw result of a task; a path missing from the result is an error.
  Without a selector the raw result is taken whole.
\<close>

definition select :: "(string \<times> string) list option \<Rightarrow> doc \<Rightarrow> doc option" where
  "select sel res =
     (case sel of
        None \<Rightarrow> Some res
      | Some sl \<Rightarrow>
          those (map (\<lambda>(k, p). map_option (\<lambda>v. (''$.'' @ butlast (butlast k), v)) (map_of res p))
                     sl))"

text \<open>
  Choice conditions. Comparing a path that the document does not have is an error of
  the execution (\<open>None\<close>); \<open>and\<close> and \<open>or\<close> read their operands from the left.
\<close>

datatype cond =
    stringEquals string string
  | isPresent string
  | isNotPresent string
  | and_cond cond cond
  | or_cond cond cond

fun eval_cond :: "doc \<Rightarrow> cond \<Rightarrow> bool option" where
  "eval_cond d (stringEquals p v) = map_option (\<lambda>x. x = v) (map_of d p)"
| "eval_cond d (isPresent p) = Some (present d p)"
| "eval_cond d (isNotPresent p) = Some (\<not> present d p)"
| "eval_cond d (and_cond a b) =
     (case eval_cond d a of
        None \<Rightarrow> None
      | Some False \<Rightarrow> Some False
      | Some True \<Rightarrow> eval_cond d b)"
| "eval_cond d (or_cond a b) =
     (case eval_cond d a of
        None \<Rightarrow> None
      | Some True \<Rightarrow> Some True
      | Some False \<Rightarrow> eval_cond d b)"

text \<open>
  The first rule of a choice whose condition holds gives the next state; \<open>Some None\<close>
  when no rule matches, \<open>None\<close> on an error.
\<close>

fun choice_next :: "doc \<Rightarrow> (cond \<times> 'n) list \<Rightarrow> 'n option option" where
  "choice_next d [] = Some None"
| "choice_next d ((c, n) # rules) =
     (case eval_cond d c of
        None \<Rightarrow> None
      | Some True \<Rightarrow> Some (Some n)
      | Some False \<Rightarrow> choice_next d rules)"

text \<open>
  A catcher (\<open>addCatch\<close>) names the errors it takes (all of them by default), the path
  where the error object is written (the whole document by default) and the state to
  continue at.
\<close>

record 'n catcher =
  errors :: "string list"
  catch_resultPath :: string
  handler :: 'n

definition catches :: "string \<Rightarrow> 'n catcher \<Rightarrow> bool" where
  "catches e h \<longleftrightarrow> e \<in> set (errors h) \<or> ''States.ALL'' \<in> set (errors h)"

text \<open>
  A task state: the service call with its parameters as written (those that name data
  of the execution; roles, keys and tags are left out; the engine does not resolve
  them: a call that cannot be made is a failed call), where its result goes,
  whether \<open>addRetry()\<close> was called on it (retry on every error, with the defaults of the
  service), its catchers in order, and the next state (none: the execution ends there).
\<close>

record 'n task =
  service :: string
  action :: string
  inputPath :: string
  parameters :: "(string \<times> string) list"
  resultSelector :: "(string \<times> string) list option"
  resultPath :: string
  retry :: bool
  catchers :: "'n catcher list"
  next_state :: "'n option"

datatype 'n state_def =
    Task "'n task"
  | Choice "(cond \<times> 'n) list" "'n option"
  | Wait nat "'n option"
  | Succeed
  | Fail

record 'n machine =
  start_at :: 'n
  states :: "'n \<Rightarrow> 'n state_def option"

text \<open>
  What a task call comes back with: a raw result, or an error name and cause. The
  answers an execution will get, one for each call it makes, are kept with it.
\<close>

datatype outcome = Ok doc | Err string string

text \<open>
  What an execution has done so far: the calls of its tasks (state, service, action and
  the parameters as written), how each came back, and its waits in seconds.
\<close>

datatype 'n event =
    Call 'n string string "(string \<times> string) list"
  | TaskSucceeded 'n
  | TaskFailed 'n string
  | Waited 'n nat

text \<open>
  An execution is at a state, or has ended at one (succeeded or failed there).
\<close>

datatype 'n status = Running 'n | Succeeded 'n | Failed 'n

record 'n config =
  current :: "'n status"
  document :: doc
  attempts :: nat
  events :: "'n event list"
  answers :: "outcome list"

definition goto :: "'n \<Rightarrow> 'n option \<Rightarrow> 'n status" where
  "goto n nx = (case nx of None \<Rightarrow> Succeeded n | Some n' \<Rightarrow> Running n')"

text \<open>
  One step of an execution; \<open>maxAttempts\<close> is the number of retries the service grants
  a task with \<open>addRetry()\<close>. A task takes the next of the answers (and waits when
  there is none yet): a result is selected and written at the result path; an error is
  retried while retries are left, then handed to the first catcher that takes it, and
  fails the execution when there is none. A wait records its seconds.
\<close>

definition step :: "nat \<Rightarrow> 'n machine \<Rightarrow> 'n config \<Rightarrow> 'n config" where
  "step maxAttempts m c =
     (case current c of
        Running n \<Rightarrow>
          (case states m n of
             None \<Rightarrow> c\<lparr>current := Failed n\<rparr>
           | Some (Task t) \<Rightarrow>
               (case answers c of
                  [] \<Rightarrow> c
                | Ok res # rest \<Rightarrow>
                    (case select (resultSelector t) res of
                       None \<Rightarrow>
                         c\<lparr>current := Failed n,
                           events := events c @ [Call n (service t) (action t) (parameters t), TaskFailed n ''States.Runtime''],
                           answers := rest\<rparr>
                     | Some sub \<Rightarrow>
                         c\<lparr>current := goto n (next_state t),
                           document := put (resultPath t) sub (document c),
                           attempts := 0,
                           events := events c @ [Call n (service t) (action t) (parameters t), TaskSucceeded n],
                           answers := rest\<rparr>)
                | Err e cause # rest \<Rightarrow>
                    (if retry t \<and> attempts c < maxAttempts then
                       c\<lparr>attempts := Suc (attempts c),
                         events := events c @ [Call n (service t) (action t) (parameters t), TaskFailed n e],
                         answers := rest\<rparr>
                     else
                       (case find (catches e) (catchers t) of
                          None \<Rightarrow>
                            c\<lparr>current := Failed n,
                              events := events c @ [Call n (service t) (action t) (parameters t), TaskFailed n e],
                              answers := rest\<rparr>
                        | Some h \<Rightarrow>
                            c\<lparr>current := Running (handler h),
                              document :=
                                put (catch_resultPath h) [(''$.Error'', e), (''$.Cause'', cause)]
                                  (document c),
                              attempts := 0,
                              events := events c @ [Call n (service t) (action t) (parameters t), TaskFailed n e],
                              answers := rest\<rparr>)))
           | Some (Choice rules dflt) \<Rightarrow>
               (case choice_next (document c) rules of
                  None \<Rightarrow> c\<lparr>current := Failed n\<rparr>
                | Some (Some n') \<Rightarrow> c\<lparr>current := Running n'\<rparr>
                | Some None \<Rightarrow>
                    (case dflt of
                       None \<Rightarrow> c\<lparr>current := Failed n\<rparr>
                     | Some n' \<Rightarrow> c\<lparr>current := Running n'\<rparr>))
           | Some (Wait secs nx) \<Rightarrow>
               c\<lparr>current := goto n nx, events := events c @ [Waited n secs]\<rparr>
           | Some Succeed \<Rightarrow> c\<lparr>current := Succeeded n\<rparr>
           | Some Fail \<Rightarrow> c\<lparr>current := Failed n\<rparr>)
      | Succeeded n \<Rightarrow> c
      | Failed n \<Rightarrow> c)"

fun exec :: "nat \<Rightarrow> 'n machine \<Rightarrow> nat \<Rightarrow> 'n config \<Rightarrow> 'n config" where
  "exec maxAttempts m 0 c = c"
| "exec maxAttempts m (Suc k) c = exec maxAttempts m k (step maxAttempts m c)"

definition start :: "'n machine \<Rightarrow> doc \<Rightarrow> outcome list \<Rightarrow> 'n config" where
  "start m input ans =
     \<lparr>current = Running (start_at m), document = input, attempts = 0, events = [],
      answers = ans\<rparr>"

definition ended :: "'n config \<Rightarrow> bool" where
  "ended c = (case current c of Running n \<Rightarrow> False | _ \<Rightarrow> True)"

text \<open>A task with the defaults of the constructs.\<close>

definition task_defaults :: "'n task" where
  "task_defaults =
     \<lparr>service = [], action = [], inputPath = ''$'', parameters = [], resultSelector = None,
      resultPath = ''$'', retry = False, catchers = [], next_state = None\<rparr>"

subsection \<open>The EBS backup machine (\<open>EBSBackupMachine\<close>)\<close>

text \<open>
  The states of the machine, by the names of their constructs; there is one batch task
  for each availability zone that has a job queue (\<open>props.jqs\<close>), and \<open>EBS_Ready\<close> is
  the choice \<open>EBS Ready?\<close>.
\<close>

datatype ebs_state =
    EBSRestoreTask
  | EBSReadyTask
  | EBSReadyWait
  | EBS_Ready
  | EBSBatchJobTask string
  | EBSCleanupTask
  | EBSForceDetach
  | EBSWaitDetach
  | EBSCleanupResult
  | EBSSucceed
  | EBSFail
  | EBSReadyFailed

definition EBSBackupMachine :: "string list \<Rightarrow> ebs_state machine" where
  "EBSBackupMachine jqs =
     \<lparr>start_at = EBSRestoreTask,
      states = (\<lambda>n. case n of
        EBSWaitDetach \<Rightarrow> Some (Wait (2 * 60) (Some EBSCleanupTask))
      | EBSForceDetach \<Rightarrow> Some (Task (task_defaults
          \<lparr>service := ''ec2'', action := ''detachVolume'',
           parameters := [(''VolumeId.$'', ''$.Restore.VolumeId'')],
           resultPath := ''$.DetachVolume'',
           next_state := Some EBSWaitDetach\<rparr>))
      | EBSCleanupTask \<Rightarrow> Some (Task (task_defaults
          \<lparr>service := ''ec2'', action := ''deleteVolume'',
           parameters := [(''VolumeId.$'', ''$.Restore.VolumeId'')],
           resultPath := ''$.DeleteVolume'',
           retry := True,
           catchers := [\<lparr>errors = [''VolumeInUse''], catch_resultPath = ''$'',
                         handler = EBSForceDetach\<rparr>],
           next_state := Some EBSCleanupResult\<rparr>))
      | EBSCleanupResult \<Rightarrow> Some (Choice
          [(isNotPresent ''$.Error'', EBSSucceed),
           (isPresent ''$.Error'', EBSFail)]
          None)
      | EBSSucceed \<Rightarrow> Some Succeed
      | EBSFail \<Rightarrow> Some Fail
      | EBSRestoreTask \<Rightarrow> Some (Task (task_defaults
          \<lparr>service := ''ec2'', action := ''createVolume'',
           parameters := [(''AvailabilityZone.$'', ''$.AvailabilityZone''),
                          (''SnapshotId.$'', ''$.SnapshotId''),
                          (''VolumeType'', ''gp3'')],
           resultSelector := Some [(''VolumeId.$'', ''$.VolumeId'')],
           resultPath := ''$.Restore'',
           retry := True,
           next_state := Some EBSReadyTask\<rparr>))
      | EBSReadyTask \<Rightarrow> Some (Task (task_defaults
          \<lparr>service := ''ec2'', action := ''describeVolumes'',
           parameters := [(''VolumeIds.$'', ''States.Array($.Restore.VolumeId)'')],
           resultSelector := Some [(''State.$'', ''$.Volumes[0].State'')],
           resultPath := ''$.Ready'',
           catchers := [\<lparr>errors = [''States.ALL''], catch_resultPath = ''$'',
                         handler = EBSCleanupTask\<rparr>],
           next_state := Some EBS_Ready\<rparr>))
      | EBSReadyWait \<Rightarrow> Some (Wait (1 * 60) (Some EBSReadyTask))
      | EBSBatchJobTask az \<Rightarrow>
          (if az \<in> set jqs then Some (Task (task_defaults
             \<lparr>service := ''batch'', action := ''submitJob.sync'',
              parameters := [(''volume.$'', ''$.Restore.VolumeId''),
                             (''s3path.$'', ''States.Format('s3://{}/{}', $.S3BucketName, $.S3Prefix)'')],
              resultSelector := Some [(''Status.$'', ''$.Status'')],
              resultPath := ''$.JobResult'',
              catchers := [\<lparr>errors = [''States.ALL''], catch_resultPath = ''$.Error'',
                            handler = EBSCleanupTask\<rparr>],
              next_state := Some EBSCleanupTask\<rparr>))
           else None)
      | EBS_Ready \<Rightarrow> Some (Choice
          (map (\<lambda>az. (and_cond (stringEquals ''$.Ready.State'' ''available'')
                                (stringEquals ''$.AvailabilityZone'' az),
                       EBSBatchJobTask az)) jqs @
           [(stringEquals ''$.Ready.State'' ''creating'', EBSReadyWait)])
          (Some EBSReadyFailed))
      | EBSReadyFailed \<Rightarrow> Some Fail)\<rparr>"

subsection \<open>The RDS export machine (\<open>RDSExportMachine\<close>)\<close>

datatype rds_state =
    RDSStartExportTask
  | RDSExportStatusTask
  | RDSExportWait
  | RDSExportStatus
  | RDSExportSucceed
  | RDSExportFailed

definition RDSExportMachine :: "rds_state machine" where
  "RDSExportMachine =
     \<lparr>start_at = RDSStartExportTask,
      states = (\<lambda>n. case n of
        RDSStartExportTask \<Rightarrow> Some (Task (task_defaults
          \<lparr>service := ''rds'', action := ''startExportTask'',
           parameters := [(''ExportTaskIdentifier.$'', ''States.Format('acb-{}', $$.Execution.Name)''),
                          (''SourceArn.$'', ''$.SnapshotArn''),
                          (''S3BucketName.$'', ''$.S3BucketName''),
                          (''S3Prefix.$'', ''$.S3Prefix'')],
           resultSelector := Some [(''ExportTaskIdentifier.$'', ''$.ExportTaskIdentifier'')],
           resultPath := ''$.Export'',
           next_state := Some RDSExportStatusTask\<rparr>))
      | RDSExportStatusTask \<Rightarrow> Some (Task (task_defaults
          \<lparr>service := ''rds'', action := ''describeExportTasks'',
           parameters := [(''ExportTaskIdentifier.$'', ''$.Export.ExportTaskIdentifier'')],
           resultSelector := Some [(''ExportStatus.$'', ''$.ExportTasks[0].Status'')],
           resultPath := ''$.Status'',
           next_state := Some RDSExportStatus\<rparr>))
      | RDSExportWait \<Rightarrow> Some (Wait (30 * 60) (Some RDSExportStatusTask))
      | RDSExportStatus \<Rightarrow> Some (Choice
          [(stringEquals ''$.Status.ExportStatus'' ''COMPLETE'', RDSExportSucceed),
           (or_cond (stringEquals ''$.Status.ExportStatus'' ''FAILED'')
                    (stringEquals ''$.Status.ExportStatus'' ''CANCELED''),
            RDSExportFailed)]
          (Some RDSExportWait))
      | RDSExportSucceed \<Rightarrow> Some Succeed
      | RDSExportFailed \<Rightarrow> Some Fail)\<rparr>"

subsection \<open>The DynamoDB export machine (\<open>DDBExportMachine\<close>)\<close>



subsection \<open>The outer machine (\<open>acbdefinition\<close> in the stack)\<close>

text \<open>
  \<open>Snapshot_type\<close> is the choice \<open>Snapshot type\<close>; the three \<open>Run_\<close> tasks start an
  execution of the machine for the resource type and wait for it to end (\<open>RUN_JOB\<close>),
  failing when it fails. The task that deletes the recovery point exists only when the
  stack is built with \<open>autoDeleteSnapshot\<close>.
\<close>

datatype acb_state =
    MetadataTask
  | Snapshot_type
  | Run_EBS_Backup_Machine
  | Run_RDS_Export_Machine
  | Run_DDB_Export_Machine
  | DeleteSnapshotTask
  | Success



section \<open>Notions used to state the properties\<close>


text \<open>The part of a string after the last occurrence of a character (all of it when
  the character does not occur).\<close>

definition after_last :: "char \<Rightarrow> string \<Rightarrow> string" where
  "after_last c s = rev (takeWhile (\<lambda>x. x \<noteq> c) (rev s))"




text \<open>
  In the outer machine: a call of \<open>backup:deleteRecoveryPoint\<close> by any state, and the
  success of the execution started for the resource type.
\<close>

definition is_delete_call :: "acb_state event \<Rightarrow> bool" where
  "is_delete_call e =
     (case e of
        Call n s a ps \<Rightarrow> s = ''backup'' \<and> a = ''deleteRecoveryPoint''
      | _ \<Rightarrow> False)"

definition delete_issued :: "acb_state event list \<Rightarrow> bool" where
  "delete_issued es = list_ex is_delete_call es"

definition export_succeeded :: "acb_state event list \<Rightarrow> bool" where
  "export_succeeded es \<longleftrightarrow>
     TaskSucceeded Run_EBS_Backup_Machine \<in> set es \<or>
     TaskSucceeded Run_RDS_Export_Machine \<in> set es \<or>
     TaskSucceeded Run_DDB_Export_Machine \<in> set es"



text \<open>In the EBS machine: a call of \<open>ec2:deleteVolume\<close> by any state.\<close>

definition is_delete_volume :: "ebs_state event \<Rightarrow> bool" where
  "is_delete_volume e =
     (case e of
        Call n s a ps \<Rightarrow> s = ''ec2'' \<and> a = ''deleteVolume''
      | _ \<Rightarrow> False)"


section \<open>Concrete inputs\<close>

text \<open>
  The validator of \<open>@aws-sdk/util-arn-parser\<close>: the string starts with \<open>arn:\<close> and has
  at least six segments between colons.
\<close>

definition util_arn_parser_validate :: "string \<Rightarrow> bool" where
  "util_arn_parser_validate s \<longleftrightarrow> take 4 s = ''arn:'' \<and> 6 \<le> length (split_str CHR '':'' s)"

definition example_world :: world where
  "example_world =
     \<lparr>VALIDAZS = ''us-east-1a,us-east-1b'',
      BUCKET = ''backup-bucket'',
      ARN_validate = util_arn_parser_validate,
      random = 3 / 4,
      listBuckets = Inr [''logs'', ''backup-bucket''],
      describeTags = (\<lambda>rid. Inr [(''team'', ''storage'')]),
      describeDBClusterSnapshots = (\<lambda>arn. Inr ''aurora-mysql''),
      describeDBSnapshots = (\<lambda>arn. Inr ''mysql''),
      listTagsForResource = (\<lambda>arn. Inr [(''env'', ''prod'')]),
      listTagsOfResource = (\<lambda>arn. Inr [(''table'', ''orders'')])\<rparr>"

definition ebs_job :: BackupEvent where
  "ebs_job =
     \<lparr>backupJobId = ''job-42'',
      backupVaultName = ''vault'',
      resourceType = ''EBS'',
      resourceArn = ''arn:aws:ec2:us-east-1:123456789012:volume/vol-0123'',
      recoveryPointArn = ''arn:aws:ec2:us-east-1::snapshot/snap-0123'',
      state = ''COMPLETED'',
      creationDate = \<lparr>seconds = 1700000000, nanos = 0\<rparr>\<rparr>"


definition rds_job :: BackupEvent where
  "rds_job =
     \<lparr>backupJobId = ''job-43'',
      backupVaultName = ''vault'',
      resourceType = ''RDS'',
      resourceArn = ''arn:aws:rds:us-east-1:123456789012:snapshot:awsbackup:job-43'',
      recoveryPointArn = ''arn:aws:rds:us-east-1:123456789012:snapshot:awsbackup:job-43'',
      state = ''COMPLETED'',
      creationDate = \<lparr>seconds = 1700000000, nanos = 0\<rparr>\<rparr>"

definition failed_job :: BackupEvent where
  "failed_job = ebs_job\<lparr>state := ''FAILED''\<rparr>"

text \<open>The input of an execution of the EBS machine and of the outer machine.\<close>

definition ebs_input :: doc where
  "ebs_input =
     [(''$.AvailabilityZone'', ''us-east-1a''), (''$.SnapshotId'', ''snap-0123''),
      (''$.S3BucketName'', ''backup-bucket'')]"



text \<open>
  Answers for the export machines: the export starts and the first poll reads the
  status \<open>s\<close>.
\<close>

definition rds_answers :: "string \<Rightarrow> outcome list" where
  "rds_answers s =
     [Ok [(''$.ExportTaskIdentifier'', ''acb-1'')], Ok [(''$.ExportTasks[0].Status'', s)]]"


text \<open>
  Answers for the EBS machine: the volume is created and the first poll finds it in the
  state \<open>error\<close>.
\<close>

definition ebs_answers_error :: "outcome list" where
  "ebs_answers_error =
     [Ok [(''$.VolumeId'', ''vol-0abc'')], Ok [(''$.Volumes[0].State'', ''error'')]]"

section \<open>Properties of the snapshot-metadata Lambda\<close>

subsection \<open>Splitting and the last segment\<close>

lemma split_str_not_Nil [simp]: "split_str c s \<noteq> []"
  by (induction s) (auto split: list.splits)

lemma split_str_absent: "c \<notin> set s \<Longrightarrow> split_str c s = [s]"
  by (induction s) auto

lemma split_str_present: "c \<in> set s \<Longrightarrow> 2 \<le> length (split_str c s)"
proof (induction s)
  case Nil
  then show ?case by simp
next
  case (Cons x xs)
  show ?case
  proof (cases "x = c")
    case True
    then show ?thesis
      using split_str_not_Nil [of c xs] by (cases "split_str c xs") auto
  next
    case False
    with Cons show ?thesis by (auto split: list.splits)
  qed
qed

lemma after_last_Cons:
  "after_last c (x # xs) =
     (if c \<in> set xs then after_last c xs else if x = c then xs else x # xs)"
  by (auto simp: after_last_def takeWhile_append)

lemma after_last_absent: "c \<notin> set s \<Longrightarrow> after_last c s = s"
proof -
  assume "c \<notin> set s"
  then have tw: "takeWhile (\<lambda>x. x \<noteq> c) (rev s) = rev s"
    by auto
  show ?thesis unfolding after_last_def tw by simp
qed

lemma last_split_str: "last (split_str c s) = after_last c s"
proof (induction s)
  case Nil
  show ?case by (simp add: after_last_def)
next
  case (Cons x xs)
  show ?case
  proof (cases "c \<in> set xs")
    case True
    from split_str_present [OF True] obtain y z zs where sp: "split_str c xs = y # z # zs"
      by (cases "split_str c xs"; cases "tl (split_str c xs)") auto
    with Cons True show ?thesis by (simp add: after_last_Cons)
  next
    case False
    then show ?thesis
      by (simp add: after_last_Cons split_str_absent)
  qed
qed

lemma index_slice_last: "xs \<noteq> [] \<Longrightarrow> index (slice_last xs) 0 = Some (last xs)"
  by (cases xs rule: rev_cases) (auto simp: index_def slice_last_def)

subsection \<open>What a returned object is made of\<close>

lemma metadataHandler_Inr:
  assumes "metadataHandler w d = (calls, Inr md)"
  obtains t cs l' pend where
    "state d = ''COMPLETED''"
    "new_Date (seconds (creationDate d)) (nanos (creationDate d)) = Some t"
    "resource_switch w d \<lparr>tags = [], engine = []\<rparr> = (cs, Inr l', pend)"
    "calls = S3_listBuckets # cs"
    "md = \<lparr>AvailabilityZone =
             index (split_str CHR '','' (VALIDAZS w))
               \<lfloor>random w * real (length (split_str CHR '','' (VALIDAZS w)))\<rfloor>,
           SnapshotArn = recoveryPointArn d,
           SnapshotId = index (slice_last (split_str CHR ''/'' (recoveryPointArn d))) 0,
           BackupVaultName = backupVaultName d,
           ResourceArn = resourceArn d,
           ResourceType = resourceType d,
           S3BucketName = BUCKET w,
           S3Prefix = S3Prefix_of d t,
           CreationDate = toISOString t,
           Tags = tags l',
           Engine = engine l'\<rparr>"
  using assms
  by (auto simp: metadataHandler_def Let_def
           split: if_splits sum.splits bool.splits prod.splits option.splits)

text \<open>The handler on the two example jobs.\<close>

lemma example_ebs:
  "metadataHandler example_world ebs_job =
     ([S3_listBuckets, EC2_describeTags (Some ''vol-0123'')],
      Inr \<lparr>AvailabilityZone = Some ''us-east-1b'',
           SnapshotArn = ''arn:aws:ec2:us-east-1::snapshot/snap-0123'',
           SnapshotId = Some ''snap-0123'',
           BackupVaultName = ''vault'',
           ResourceArn = ''arn:aws:ec2:us-east-1:123456789012:volume/vol-0123'',
           ResourceType = ''EBS'',
           S3BucketName = ''backup-bucket'',
           S3Prefix = ''arn/aws/ec2/us-east-1/123456789012/volume/vol-0123/Y=2023/M=11/D=14/job-42'',
           CreationDate = ''2023-11-14T22:13:20.000Z'',
           Tags = [(''team'', ''storage'')],
           Engine = []\<rparr>)"
  by code_simp

lemma example_rds:
  "metadataHandler example_world rds_job =
     ([S3_listBuckets,
       RDS_describeDBSnapshots ''arn:aws:rds:us-east-1:123456789012:snapshot:awsbackup:job-43'',
       RDS_listTagsForResource ''arn:aws:rds:us-east-1:123456789012:snapshot:awsbackup:job-43''],
      Inr \<lparr>AvailabilityZone = Some ''us-east-1b'',
           SnapshotArn = ''arn:aws:rds:us-east-1:123456789012:snapshot:awsbackup:job-43'',
           SnapshotId = Some ''arn:aws:rds:us-east-1:123456789012:snapshot:awsbackup:job-43'',
           BackupVaultName = ''vault'',
           ResourceArn = ''arn:aws:rds:us-east-1:123456789012:snapshot:awsbackup:job-43'',
           ResourceType = ''RDS'',
           S3BucketName = ''backup-bucket'',
           S3Prefix =
             ''arn/aws/rds/us-east-1/123456789012/snapshot/awsbackup/job-43/Y=2023/M=11/D=14/job-43'',
           CreationDate = ''2023-11-14T22:13:20.000Z'',
           Tags = [],
           Engine = []\<rparr>)"
  by code_simp

subsection \<open>Jobs that did not complete\<close>

text \<open>
  Claim C5. For every event whose state is not \<open>COMPLETED\<close> the handler fails with
  an error whose message carries the job id and the state, and it sends no call at all:
  no bucket listing, no tag or descriptor fetch, and no metadata comes back.
\<close>

theorem state_not_completed_fails:
  "state d \<noteq> ''COMPLETED'' \<Longrightarrow>
   metadataHandler w d =
     ([], Inl (Error (''Backup job '' @ backupJobId d @ '' terminated in state '' @ state d)))"
  by (simp add: metadataHandler_def)

theorem state_not_completed_fails_witness:
  "state failed_job \<noteq> ''COMPLETED'' \<and>
   metadataHandler example_world failed_job =
     ([], Inl (Error ''Backup job job-42 terminated in state FAILED''))"
  using state_not_completed_fails [of failed_job example_world]
  by (simp add: failed_job_def ebs_job_def)

subsection \<open>The snapshot id\<close>

text \<open>
  Claim C10. The \<open>SnapshotId\<close> of a returned object is the part of the recovery-point
  ARN after its last \<open>/\<close>; for an ARN without any \<open>/\<close> it is the whole ARN, so the
  derivation never comes out undefined.
\<close>

theorem snapshot_id_after_last_slash:
  assumes "metadataHandler w d = (calls, Inr md)"
  shows "SnapshotId md = Some (after_last CHR ''/'' (recoveryPointArn d)) \<and>
         (CHR ''/'' \<notin> set (recoveryPointArn d) \<longrightarrow> SnapshotId md = Some (recoveryPointArn d))"
proof -
  from assms have "SnapshotId md = index (slice_last (split_str CHR ''/'' (recoveryPointArn d))) 0"
    by (rule metadataHandler_Inr) simp
  then have "SnapshotId md = Some (after_last CHR ''/'' (recoveryPointArn d))"
    by (simp add: index_slice_last last_split_str)
  then show ?thesis
    by (simp add: after_last_absent)
qed

theorem snapshot_id_after_last_slash_witness:
  "\<not> isl (snd (metadataHandler example_world rds_job)) \<and>
   CHR ''/'' \<notin> set (recoveryPointArn rds_job) \<and>
   SnapshotId (projr (snd (metadataHandler example_world rds_job))) = Some (recoveryPointArn rds_job) \<and>
   \<not> isl (snd (metadataHandler example_world ebs_job)) \<and>
   SnapshotId (projr (snd (metadataHandler example_world ebs_job))) =
     Some (after_last CHR ''/'' ''arn:aws:ec2:us-east-1::snapshot/snap-0123'')"
  using
    snapshot_id_after_last_slash [of example_world rds_job
      "fst (metadataHandler example_world rds_job)"
      "projr (snd (metadataHandler example_world rds_job))"]
    snapshot_id_after_last_slash [of example_world ebs_job
      "fst (metadataHandler example_world ebs_job)"
      "projr (snd (metadataHandler example_world ebs_job))"]
  by (simp add: example_rds example_ebs) (simp add: rds_job_def ebs_job_def)

lemma resource_switch_random [simp]:
  "resource_switch (w\<lparr>random := r\<rparr>) d l = resource_switch w d l"
  by (simp add: resource_switch_def)

lemma metadataHandler_random:
  "metadataHandler w d = (calls, Inr md) \<Longrightarrow>
   metadataHandler (w\<lparr>random := r\<rparr>) d =
     (calls, Inr (md\<lparr>AvailabilityZone :=
        index (split_str CHR '','' (VALIDAZS w))
          \<lfloor>r * real (length (split_str CHR '','' (VALIDAZS w)))\<rfloor>\<rparr>))"
  by (auto simp: metadataHandler_def Let_def checkBucketOwner_def
           split: if_splits sum.splits bool.splits prod.splits option.splits)

lemma floor_pick:
  fixes r :: real
  assumes "0 \<le> r" "r < 1" "0 < n"
  shows "0 \<le> \<lfloor>r * real n\<rfloor> \<and> \<lfloor>r * real n\<rfloor> < int n"
proof -
  have "r * real n < real n" using assms by simp
  moreover have "0 \<le> r * real n" using assms by simp
  ultimately show ?thesis
    by (simp add: floor_less_iff)
qed

subsection \<open>The availability zone\<close>

text \<open>
  Claim C9. For every value of the random source in \<open>[0, 1)\<close> the availability zone
  of a returned object is an element of the configured list (the comma-separated
  \<open>VALIDAZS\<close>), and every element of that list is selected by some value of the random
  source in \<open>[0, 1)\<close>, everything else being equal.
\<close>

theorem availability_zone_member:
  assumes ok: "metadataHandler w d = (calls, Inr md)"
    and r0: "0 \<le> random w" and r1: "random w < 1"
  shows "(\<exists>az. AvailabilityZone md = Some az \<and> az \<in> set (split_str CHR '','' (VALIDAZS w))) \<and>
         (\<forall>az \<in> set (split_str CHR '','' (VALIDAZS w)).
            \<exists>r md'. 0 \<le> r \<and> r < 1 \<and>
              metadataHandler (w\<lparr>random := r\<rparr>) d = (calls, Inr md') \<and>
              AvailabilityZone md' = Some az)"
proof
  let ?azlist = "split_str CHR '','' (VALIDAZS w)"
  have n: "0 < length ?azlist" by simp
  from ok have az: "AvailabilityZone md = index ?azlist \<lfloor>random w * real (length ?azlist)\<rfloor>"
    by (rule metadataHandler_Inr) simp
  have fl: "0 \<le> \<lfloor>random w * real (length ?azlist)\<rfloor> \<and>
      \<lfloor>random w * real (length ?azlist)\<rfloor> < int (length ?azlist)"
    using floor_pick [OF r0 r1 n] .
  then have lt: "nat \<lfloor>random w * real (length ?azlist)\<rfloor> < length ?azlist"
    by linarith
  from fl have "AvailabilityZone md = Some (?azlist ! nat \<lfloor>random w * real (length ?azlist)\<rfloor>)"
    unfolding az index_def by (simp only: if_True simp_thms)
  with nth_mem [OF lt] show "\<exists>az. AvailabilityZone md = Some az \<and> az \<in> set ?azlist"
    by blast
  show "\<forall>az \<in> set ?azlist. \<exists>r md'. 0 \<le> r \<and> r < 1 \<and>
          metadataHandler (w\<lparr>random := r\<rparr>) d = (calls, Inr md') \<and> AvailabilityZone md' = Some az"
  proof
    fix az assume "az \<in> set ?azlist"
    then obtain i where i: "i < length ?azlist" "?azlist ! i = az"
      by (auto simp: in_set_conv_nth)
    let ?r = "real i / real (length ?azlist)"
    have "0 \<le> ?r" "?r < 1" using i by simp_all
    moreover have "metadataHandler (w\<lparr>random := ?r\<rparr>) d =
        (calls, Inr (md\<lparr>AvailabilityZone := index ?azlist \<lfloor>?r * real (length ?azlist)\<rfloor>\<rparr>))"
      using metadataHandler_random [OF ok] .
    moreover have "index ?azlist \<lfloor>?r * real (length ?azlist)\<rfloor> = Some az"
      using i by (simp add: index_def)
    ultimately show "\<exists>r md'. 0 \<le> r \<and> r < 1 \<and>
          metadataHandler (w\<lparr>random := r\<rparr>) d = (calls, Inr md') \<and> AvailabilityZone md' = Some az"
      by (metis SnapshotMetadata.select_convs(1) SnapshotMetadata.surjective SnapshotMetadata.update_convs(1))
  qed
qed


theorem availability_zone_member_witness:
  "0 \<le> random example_world \<and> random example_world < 1 \<and>
   AvailabilityZone (projr (snd (metadataHandler example_world ebs_job))) = Some ''us-east-1b'' \<and>
   ''us-east-1b'' \<in> set (split_str CHR '','' (VALIDAZS example_world)) \<and>
   (\<exists>r md'. 0 \<le> r \<and> r < 1 \<and>
      metadataHandler (example_world\<lparr>random := r\<rparr>) ebs_job =
        (fst (metadataHandler example_world ebs_job), Inr md') \<and>
      AvailabilityZone md' = Some ''us-east-1a'')"
proof -
  have r: "0 \<le> random example_world" "random example_world < 1"
    by (simp_all add: example_world_def)
  have ok: "metadataHandler example_world ebs_job =
      (fst (metadataHandler example_world ebs_job),
       Inr (projr (snd (metadataHandler example_world ebs_job))))"
    by (simp add: example_ebs)
  have mem: "''us-east-1a'' \<in> set (split_str CHR '','' (VALIDAZS example_world))"
    "''us-east-1b'' \<in> set (split_str CHR '','' (VALIDAZS example_world))"
    by (simp_all add: example_world_def)
  from availability_zone_member [OF ok r] mem r show ?thesis
    by (simp add: example_ebs)
qed

subsection \<open>The prefix\<close>





























subsection \<open>Engine and tags of database snapshots\<close>

lemma rds_result_defaults:
  assumes "metadataHandler w d = (calls, Inr md)"
    and "resourceType d = ''Aurora'' \<or> resourceType d = ''RDS''"
  shows "Engine md = [] \<and> Tags md = []"
  using assms
  by (auto simp: metadataHandler_def resource_switch_def Let_def
           split: if_splits sum.splits bool.splits prod.splits option.splits)

text \<open>
  Claim C4 on the code. For a completed RDS job whose snapshot has the engine
  \<open>mysql\<close> and one tag, the handler sends both calls and returns an object whose
  \<open>Engine\<close> is the empty string and whose \<open>Tags\<close> are empty; and it returns an object
  all the same when the descriptor call is rejected.
\<close>

theorem rds_engine_and_tags_not_fetched:
  "describeDBSnapshots example_world (resourceArn rds_job) = Inr ''mysql'' \<and>
   listTagsForResource example_world (resourceArn rds_job) = Inr [(''env'', ''prod'')] \<and>
   fst (metadataHandler example_world rds_job) =
     [S3_listBuckets, RDS_describeDBSnapshots (resourceArn rds_job),
      RDS_listTagsForResource (resourceArn rds_job)] \<and>
   \<not> isl (snd (metadataHandler example_world rds_job)) \<and>
   Engine (projr (snd (metadataHandler example_world rds_job))) = [] \<and>
   Tags (projr (snd (metadataHandler example_world rds_job))) = [] \<and>
   \<not> isl (snd (metadataHandler
       (example_world\<lparr>describeDBSnapshots := \<lambda>arn. Inl (ServiceError ''DBSnapshotNotFound'')\<rparr>)
       rds_job))"
proof -
  have "\<not> isl (snd (metadataHandler
       (example_world\<lparr>describeDBSnapshots := \<lambda>arn. Inl (ServiceError ''DBSnapshotNotFound'')\<rparr>)
       rds_job))"
    by code_simp
  then show ?thesis
    by (simp add: example_rds) (simp add: example_world_def rds_job_def)
qed

section \<open>Properties of the state machines\<close>

subsection \<open>Steps of the engine\<close>

lemma step_ended: "ended c \<Longrightarrow> step K m c = c"
  by (auto simp: ended_def step_def split: status.splits)

lemma exec_ended: "ended c \<Longrightarrow> exec K m n c = c"
  by (induction n) (simp_all add: step_ended)

lemma step_task_ok:
  assumes "current c = Running n" "states m n = Some (Task t)" "answers c = Ok res # rest"
    "select (resultSelector t) res = Some sub"
  shows "step K m c =
     c\<lparr>current := goto n (next_state t),
       document := put (resultPath t) sub (document c),
       attempts := 0,
       events := events c @ [Call n (service t) (action t) (parameters t), TaskSucceeded n],
       answers := rest\<rparr>"
  using assms by (simp add: step_def)

lemma step_choice:
  assumes "current c = Running n" "states m n = Some (Choice rules dflt)"
    "choice_next (document c) rules = Some r"
  shows "step K m c =
     c\<lparr>current := (case r of Some n' \<Rightarrow> Running n'
                     | None \<Rightarrow> (case dflt of None \<Rightarrow> Failed n | Some n' \<Rightarrow> Running n'))\<rparr>"
  using assms by (simp add: step_def split: option.splits)

lemma step_wait:
  assumes "current c = Running n" "states m n = Some (Wait secs nx)"
  shows "step K m c = c\<lparr>current := goto n nx, events := events c @ [Waited n secs]\<rparr>"
  using assms by (simp add: step_def)

lemma step_succeed:
  assumes "current c = Running n" "states m n = Some Succeed"
  shows "step K m c = c\<lparr>current := Succeeded n\<rparr>"
  using assms by (simp add: step_def)

lemma step_fail:
  assumes "current c = Running n" "states m n = Some Fail"
  shows "step K m c = c\<lparr>current := Failed n\<rparr>"
  using assms by (simp add: step_def)

subsection \<open>The polling loop of the RDS export machine\<close>

lemma rds_status_task:
  assumes cur: "current c = Running RDSExportStatusTask"
    and ans: "answers c = Ok res # rest"
    and st: "map_of res ''$.ExportTasks[0].Status'' = Some s"
  shows "step K RDSExportMachine c =
     c\<lparr>current := Running RDSExportStatus,
       document := (''$.Status.ExportStatus'', s) # filter (\<lambda>(k, v). \<not> under ''$.Status'' k) (document c),
       attempts := 0,
       events := events c @
         [Call RDSExportStatusTask ''rds'' ''describeExportTasks''
            [(''ExportTaskIdentifier.$'', ''$.Export.ExportTaskIdentifier'')],
          TaskSucceeded RDSExportStatusTask],
       answers := rest\<rparr>"
proof -
  have "states RDSExportMachine RDSExportStatusTask = Some (Task (task_defaults
          \<lparr>service := ''rds'', action := ''describeExportTasks'',
           parameters := [(''ExportTaskIdentifier.$'', ''$.Export.ExportTaskIdentifier'')],
           resultSelector := Some [(''ExportStatus.$'', ''$.ExportTasks[0].Status'')],
           resultPath := ''$.Status'',
           next_state := Some RDSExportStatus\<rparr>))"
    by (simp add: RDSExportMachine_def)
  from step_task_ok [OF cur this ans, of "[(''$.ExportStatus'', s)]" K] st
  show ?thesis
    by (simp add: task_defaults_def select_def put_def goto_def)
qed

lemma rds_status_choice:
  assumes cur: "current c = Running RDSExportStatus"
    and st: "map_of (document c) ''$.Status.ExportStatus'' = Some s"
  shows "step K RDSExportMachine c =
     c\<lparr>current :=
         (if s = ''COMPLETE'' then Running RDSExportSucceed
          else if s = ''FAILED'' \<or> s = ''CANCELED'' then Running RDSExportFailed
          else Running RDSExportWait)\<rparr>"
proof -
  have d: "states RDSExportMachine RDSExportStatus = Some (Choice
          [(stringEquals ''$.Status.ExportStatus'' ''COMPLETE'', RDSExportSucceed),
           (or_cond (stringEquals ''$.Status.ExportStatus'' ''FAILED'')
                    (stringEquals ''$.Status.ExportStatus'' ''CANCELED''),
            RDSExportFailed)]
          (Some RDSExportWait))"
    by (simp add: RDSExportMachine_def)
  have "choice_next (document c)
          [(stringEquals ''$.Status.ExportStatus'' ''COMPLETE'', RDSExportSucceed),
           (or_cond (stringEquals ''$.Status.ExportStatus'' ''FAILED'')
                    (stringEquals ''$.Status.ExportStatus'' ''CANCELED''),
            RDSExportFailed)] =
        Some (if s = ''COMPLETE'' then Some RDSExportSucceed
              else if s = ''FAILED'' \<or> s = ''CANCELED'' then Some RDSExportFailed
              else None)"
    by (simp add: st)
  from step_choice [OF cur d this, of K] show ?thesis
    by auto
qed

lemma rds_wait:
  "current c = Running RDSExportWait \<Longrightarrow>
   step K RDSExportMachine c =
     c\<lparr>current := Running RDSExportStatusTask, events := events c @ [Waited RDSExportWait 1800]\<rparr>"
  by (subst step_wait [of c RDSExportWait RDSExportMachine "30 * 60" "Some RDSExportStatusTask"])
     (simp_all add: RDSExportMachine_def goto_def)

lemma rds_succeed:
  "current c = Running RDSExportSucceed \<Longrightarrow>
   step K RDSExportMachine c = c\<lparr>current := Succeeded RDSExportSucceed\<rparr>"
  by (rule step_succeed) (simp_all add: RDSExportMachine_def)

lemma rds_failed:
  "current c = Running RDSExportFailed \<Longrightarrow>
   step K RDSExportMachine c = c\<lparr>current := Failed RDSExportFailed\<rparr>"
  by (rule step_fail) (simp_all add: RDSExportMachine_def)

lemma exec_3: "exec K m 3 c = step K m (step K m (step K m c))"
  by (simp add: eval_nat_numeral)

lemma rds_cycle:
  assumes cur: "current c = Running RDSExportStatusTask"
    and ans: "answers c = Ok res # rest"
    and st: "map_of res ''$.ExportTasks[0].Status'' = Some s"
  shows "(s = ''COMPLETE'' \<longrightarrow>
            current (exec K RDSExportMachine 3 c) = Succeeded RDSExportSucceed) \<and>
         (s = ''FAILED'' \<or> s = ''CANCELED'' \<longrightarrow>
            current (exec K RDSExportMachine 3 c) = Failed RDSExportFailed) \<and>
         (s \<noteq> ''COMPLETE'' \<and> s \<noteq> ''FAILED'' \<and> s \<noteq> ''CANCELED'' \<longrightarrow>
            current (exec K RDSExportMachine 3 c) = Running RDSExportStatusTask \<and>
            events (exec K RDSExportMachine 3 c) =
              events c @
              [Call RDSExportStatusTask ''rds'' ''describeExportTasks''
                 [(''ExportTaskIdentifier.$'', ''$.Export.ExportTaskIdentifier'')],
               TaskSucceeded RDSExportStatusTask,
               Waited RDSExportWait (30 * 60)] \<and>
            answers (exec K RDSExportMachine 3 c) = rest)"
proof -
  let ?c1 = "step K RDSExportMachine c"
  let ?c2 = "step K RDSExportMachine ?c1"
  have c1: "current ?c1 = Running RDSExportStatus"
    "map_of (document ?c1) ''$.Status.ExportStatus'' = Some s"
    "events ?c1 = events c @
         [Call RDSExportStatusTask ''rds'' ''describeExportTasks''
            [(''ExportTaskIdentifier.$'', ''$.Export.ExportTaskIdentifier'')],
          TaskSucceeded RDSExportStatusTask]"
    "answers ?c1 = rest"
    by (simp_all add: rds_status_task [OF cur ans st])
  have c2: "?c2 = ?c1\<lparr>current :=
         (if s = ''COMPLETE'' then Running RDSExportSucceed
          else if s = ''FAILED'' \<or> s = ''CANCELED'' then Running RDSExportFailed
          else Running RDSExportWait)\<rparr>"
    by (rule rds_status_choice [OF c1(1,2)])
  show ?thesis
  proof (intro conjI impI)
    assume "s = ''COMPLETE''"
    then have "current ?c2 = Running RDSExportSucceed" by (simp add: c2)
    then show "current (exec K RDSExportMachine 3 c) = Succeeded RDSExportSucceed"
      by (simp add: exec_3 rds_succeed)
  next
    assume "s = ''FAILED'' \<or> s = ''CANCELED''"
    then have "current ?c2 = Running RDSExportFailed" by (auto simp add: c2)
    then show "current (exec K RDSExportMachine 3 c) = Failed RDSExportFailed"
      by (simp add: exec_3 rds_failed)
  next
    assume other: "s \<noteq> ''COMPLETE'' \<and> s \<noteq> ''FAILED'' \<and> s \<noteq> ''CANCELED''"
    then have w: "current ?c2 = Running RDSExportWait" by (simp add: c2)
    have e2: "events ?c2 = events ?c1" "answers ?c2 = answers ?c1" by (simp_all add: c2)
    show "current (exec K RDSExportMachine 3 c) = Running RDSExportStatusTask"
      by (simp add: exec_3 rds_wait [OF w])
    show "events (exec K RDSExportMachine 3 c) =
              events c @
              [Call RDSExportStatusTask ''rds'' ''describeExportTasks''
                 [(''ExportTaskIdentifier.$'', ''$.Export.ExportTaskIdentifier'')],
               TaskSucceeded RDSExportStatusTask,
               Waited RDSExportWait (30 * 60)]"
      by (simp add: exec_3 rds_wait [OF w] e2 c1)
    show "answers (exec K RDSExportMachine 3 c) = rest"
      by (simp add: exec_3 rds_wait [OF w] e2 c1)
  qed
qed


subsection \<open>The outer machine deletes the recovery point only after success\<close>


lemma delete_issued_append [simp]:
  "delete_issued (es @ es') \<longleftrightarrow> delete_issued es \<or> delete_issued es'"
  by (auto simp: delete_issued_def list_ex_iff)

lemma export_succeeded_append [simp]:
  "export_succeeded (es @ es') \<longleftrightarrow> export_succeeded es \<or> export_succeeded es'"
  by (auto simp: export_succeeded_def)


















lemma exec_add: "exec K m (a + b) c = exec K m b (exec K m a c)"
  by (induction a arbitrary: c) simp_all

lemma rds_started:
  "step K RDSExportMachine (start RDSExportMachine [] (rds_answers s)) =
     \<lparr>current = Running RDSExportStatusTask,
      document = [(''$.Export.ExportTaskIdentifier'', ''acb-1'')],
      attempts = 0,
      events = [Call RDSStartExportTask ''rds'' ''startExportTask''
                  [(''ExportTaskIdentifier.$'', ''States.Format('acb-{}', $$.Execution.Name)''),
                   (''SourceArn.$'', ''$.SnapshotArn''),
                   (''S3BucketName.$'', ''$.S3BucketName''),
                   (''S3Prefix.$'', ''$.S3Prefix'')],
                TaskSucceeded RDSStartExportTask],
      answers = [Ok [(''$.ExportTasks[0].Status'', s)]]\<rparr>"
  by (simp add: start_def rds_answers_def step_def RDSExportMachine_def task_defaults_def
        select_def put_def goto_def)

text \<open>
  Claim C7. In the RDS/Aurora export machine, when a poll reads the status \<open>s\<close>: on
  \<open>COMPLETE\<close> the execution ends in success, on \<open>FAILED\<close> or \<open>CANCELED\<close> it ends in
  failure, and on every other status it waits 30 minutes (1800 seconds) and is back at
  the status task for the next poll, with the remaining answers; it never fails there.
\<close>

theorem rds_poll_cycle:
  assumes "current c = Running RDSExportStatusTask"
    and "answers c = Ok res # rest"
    and "map_of res ''$.ExportTasks[0].Status'' = Some s"
  shows "(s = ''COMPLETE'' \<longrightarrow>
            current (exec K RDSExportMachine 3 c) = Succeeded RDSExportSucceed) \<and>
         (s = ''FAILED'' \<or> s = ''CANCELED'' \<longrightarrow>
            current (exec K RDSExportMachine 3 c) = Failed RDSExportFailed) \<and>
         (s \<noteq> ''COMPLETE'' \<and> s \<noteq> ''FAILED'' \<and> s \<noteq> ''CANCELED'' \<longrightarrow>
            current (exec K RDSExportMachine 3 c) = Running RDSExportStatusTask \<and>
            events (exec K RDSExportMachine 3 c) =
              events c @
              [Call RDSExportStatusTask ''rds'' ''describeExportTasks''
                 [(''ExportTaskIdentifier.$'', ''$.Export.ExportTaskIdentifier'')],
               TaskSucceeded RDSExportStatusTask,
               Waited RDSExportWait (30 * 60)] \<and>
            answers (exec K RDSExportMachine 3 c) = rest)"
  using assms by (rule rds_cycle)

theorem rds_poll_cycle_witness:
  "current (exec 3 RDSExportMachine 4 (start RDSExportMachine [] (rds_answers ''COMPLETE''))) =
     Succeeded RDSExportSucceed \<and>
   current (exec 3 RDSExportMachine 4 (start RDSExportMachine [] (rds_answers ''FAILED''))) =
     Failed RDSExportFailed \<and>
   current (exec 3 RDSExportMachine 4 (start RDSExportMachine [] (rds_answers ''CANCELED''))) =
     Failed RDSExportFailed \<and>
   current (exec 3 RDSExportMachine 4 (start RDSExportMachine [] (rds_answers ''STARTING''))) =
     Running RDSExportStatusTask \<and>
   Waited RDSExportWait 1800 \<in>
     set (events (exec 3 RDSExportMachine 4 (start RDSExportMachine [] (rds_answers ''STARTING''))))"
proof -
  have split: "exec 3 RDSExportMachine 4 c = exec 3 RDSExportMachine 3 (exec 3 RDSExportMachine 1 c)" for c
    using exec_add [of 3 RDSExportMachine 1 3 c] by simp
  have h: "current (exec 3 RDSExportMachine 1 (start RDSExportMachine [] (rds_answers s))) =
             Running RDSExportStatusTask"
    "answers (exec 3 RDSExportMachine 1 (start RDSExportMachine [] (rds_answers s))) =
       Ok [(''$.ExportTasks[0].Status'', s)] # []"
    "map_of [(''$.ExportTasks[0].Status'', s)] ''$.ExportTasks[0].Status'' = Some s" for s
    by (simp_all add: rds_started)
  from rds_poll_cycle [OF h, of "''COMPLETE''" 3] rds_poll_cycle [OF h, of "''FAILED''" 3]
    rds_poll_cycle [OF h, of "''CANCELED''" 3] rds_poll_cycle [OF h, of "''STARTING''" 3]
  show ?thesis
    unfolding split by simp
qed

subsection \<open>The EBS machine when the volume is neither available nor creating\<close>

text \<open>
  Claim C1 on the code. With the restored volume polled in the state \<open>error\<close> the
  execution ends at \<open>EBSReadyFailed\<close> after the calls \<open>createVolume\<close> and
  \<open>describeVolumes\<close> only: no \<open>deleteVolume\<close> is ever called for the restored volume.
\<close>

theorem ebs_not_ready_skips_cleanup:
  "current (exec 3 (EBSBackupMachine [''us-east-1a'', ''us-east-1b'']) 4
      (start (EBSBackupMachine [''us-east-1a'', ''us-east-1b'']) ebs_input ebs_answers_error)) =
     Failed EBSReadyFailed \<and>
   events (exec 3 (EBSBackupMachine [''us-east-1a'', ''us-east-1b'']) 4
      (start (EBSBackupMachine [''us-east-1a'', ''us-east-1b'']) ebs_input ebs_answers_error)) =
     [Call EBSRestoreTask ''ec2'' ''createVolume''
        [(''AvailabilityZone.$'', ''$.AvailabilityZone''), (''SnapshotId.$'', ''$.SnapshotId''),
         (''VolumeType'', ''gp3'')],
      TaskSucceeded EBSRestoreTask,
      Call EBSReadyTask ''ec2'' ''describeVolumes''
        [(''VolumeIds.$'', ''States.Array($.Restore.VolumeId)'')],
      TaskSucceeded EBSReadyTask] \<and>
   \<not> list_ex is_delete_volume
      (events (exec 3 (EBSBackupMachine [''us-east-1a'', ''us-east-1b'']) 4
        (start (EBSBackupMachine [''us-east-1a'', ''us-east-1b'']) ebs_input ebs_answers_error)))"
  by code_simp

subsection \<open>The polling loop of the DynamoDB export machine\<close>














end
